theory Spec2Isabelle
  imports Complex_Main
begin

section \<open>JavaScript values\<close>

text \<open>
  The server receives JSON request bodies and reads JSON files, so the untrusted inputs
  are dynamically typed.  A number is a double: the model keeps the three non-finite
  values apart and takes a finite one as a real (rounding is not modelled; every number
  the scheduler compares is an integer far below \<open>2^53\<close> whenever \<open>everyMinutes\<close> is
  integral).  A string is a list of code units, one \<open>char\<close> each.
\<close>

datatype jsnum = NaN | NegInf | Fin real | PosInf

datatype jsval =
    Undefined
  | Null
  | JBool bool
  | JNum jsnum
  | JStr string
  | JArr "jsval list"
  | JObj "(string \<times> jsval) list"

text \<open>Exceptions a function of the server can throw.\<close>

datatype error =
    TypeError
  | TokenMissing            \<comment> \<open>\<open>new Error("SMARTTHINGS_TOKEN fehlt")\<close>\<close>
  | SourceNotFound          \<comment> \<open>\<open>new Error("Token fuer Quelle nicht gefunden")\<close>\<close>
  | CommandFailed nat string \<comment> \<open>\<open>SmartThings Command fehlgeschlagen (status) text\<close>\<close>
  | NetworkError
  | JsonError
  | FileError
  | CryptoError

text \<open>Truthiness, as \<open>!x\<close>, \<open>x || y\<close>, \<open>x ? a : b\<close> and \<open>Boolean(x)\<close> use it.\<close>

fun truthy :: "jsval \<Rightarrow> bool" where
  "truthy Undefined = False"
| "truthy Null = False"
| "truthy (JBool b) = b"
| "truthy (JNum n) = (n \<noteq> NaN \<and> n \<noteq> Fin 0)"
| "truthy (JStr s) = (s \<noteq> [])"
| "truthy (JArr xs) = True"
| "truthy (JObj kvs) = True"

definition jsOr :: "jsval \<Rightarrow> jsval \<Rightarrow> jsval" where
  "jsOr a b = (if truthy a then a else b)"

text \<open>
  Property read \<open>v.k\<close> for the keys the server reads (none of them is a built-in property
  of a string, an array, a number or a boolean).  Every read in the modelled code is
  guarded against \<open>null\<close> and \<open>undefined\<close> receivers, except those written with
  \<open>propT\<close>, which throw as JavaScript does.
\<close>

fun getProp :: "jsval \<Rightarrow> string \<Rightarrow> jsval" where
  "getProp (JObj kvs) k = (case map_of kvs k of None \<Rightarrow> Undefined | Some v \<Rightarrow> v)"
| "getProp v k = Undefined"

definition propT :: "jsval \<Rightarrow> string \<Rightarrow> error + jsval" where
  "propT v k = (if v = Undefined \<or> v = Null then Inl TypeError else Inr (getProp v k))"

text \<open>Optional chaining \<open>v?.k\<close>.\<close>

definition propOpt :: "jsval \<Rightarrow> string \<Rightarrow> jsval" where
  "propOpt v k = (if v = Undefined \<or> v = Null then Undefined else getProp v k)"

fun joinWith :: "string \<Rightarrow> string list \<Rightarrow> string" where
  "joinWith sep [] = []"
| "joinWith sep [x] = x"
| "joinWith sep (x # y # ys) = x @ sep @ joinWith sep (y # ys)"

text \<open>
  The conversions between strings and numbers are built-ins of the runtime; they are
  parameters of the model.
\<close>

record builtins =
  stringToNumber :: "string \<Rightarrow> jsnum"
  numberToString :: "jsnum \<Rightarrow> string"

text \<open>\<open>String(v)\<close>; an array joins its elements with a comma.\<close>

fun ToString :: "'a builtins_scheme \<Rightarrow> jsval \<Rightarrow> string" where
  "ToString B Undefined = ''undefined''"
| "ToString B Null = ''null''"
| "ToString B (JBool b) = (if b then ''true'' else ''false'')"
| "ToString B (JNum n) = numberToString B n"
| "ToString B (JStr s) = s"
| "ToString B (JArr xs) =
     joinWith '','' (map (\<lambda>x. if x = Undefined \<or> x = Null then [] else ToString B x) xs)"
| "ToString B (JObj kvs) = ''[object Object]''"

text \<open>\<open>Number(v)\<close>.\<close>

fun ToNumber :: "'a builtins_scheme \<Rightarrow> jsval \<Rightarrow> jsnum" where
  "ToNumber B Undefined = NaN"
| "ToNumber B Null = Fin 0"
| "ToNumber B (JBool b) = Fin (if b then 1 else 0)"
| "ToNumber B (JNum n) = n"
| "ToNumber B (JStr s) = stringToNumber B s"
| "ToNumber B (JArr xs) = stringToNumber B (ToString B (JArr xs))"
| "ToNumber B (JObj kvs) = NaN"

text \<open>\<open>n || 0\<close> on a number.\<close>

definition numOrZero :: "jsnum \<Rightarrow> jsnum" where
  "numOrZero n = (if n = NaN \<or> n = Fin 0 then Fin 0 else n)"

text \<open>\<open>a <= b\<close> on numbers: false as soon as one side is \<open>NaN\<close>.\<close>

fun num_le :: "jsnum \<Rightarrow> jsnum \<Rightarrow> bool" where
  "num_le NaN b = False"
| "num_le a NaN = False"
| "num_le NegInf b = True"
| "num_le a PosInf = True"
| "num_le (Fin x) (Fin y) = (x \<le> y)"
| "num_le a b = False"

definition Math_min :: "jsnum \<Rightarrow> jsnum \<Rightarrow> jsnum" where
  "Math_min a b = (if a = NaN \<or> b = NaN then NaN else if num_le a b then a else b)"

definition Math_max :: "jsnum \<Rightarrow> jsnum \<Rightarrow> jsnum" where
  "Math_max a b = (if a = NaN \<or> b = NaN then NaN else if num_le a b then b else a)"

text \<open>\<open>Number.isInteger\<close>.\<close>

fun isInteger :: "jsnum \<Rightarrow> bool" where
  "isInteger (Fin x) = (of_int \<lfloor>x\<rfloor> = x)"
| "isInteger n = False"

text \<open>\<open>s.trim()\<close>, on the white space that fits a \<open>char\<close>.\<close>

definition isWhiteSpace :: "char \<Rightarrow> bool" where
  "isWhiteSpace c = ((of_char c :: nat) \<in> {9, 10, 11, 12, 13, 32, 160})"

definition trim :: "string \<Rightarrow> string" where
  "trim s = rev (dropWhile isWhiteSpace (rev (dropWhile isWhiteSpace s)))"

text \<open>\<open>Array.from(new Set(xs))\<close>: the first occurrence of each element, in order.\<close>

fun dedupe :: "'a list \<Rightarrow> 'a list \<Rightarrow> 'a list" where
  "dedupe seen [] = []"
| "dedupe seen (x # xs) = (if x \<in> set seen then dedupe seen xs else x # dedupe (x # seen) xs)"


section \<open>Data model\<close>

text \<open>
  A credential entry of \<open>data/integrations.json\<close>, as \<open>saveSmartThingsEntry\<close> writes it;
  \<open>token\<close> is the base64 blob of \<open>encryptSecret\<close>, or whatever the file holds.
\<close>

record cred_entry =
  e_id :: string
  e_label :: string
  e_enabled :: jsval
  e_token :: jsval
  e_updatedAt :: int

text \<open>
  An element of the array \<open>resolveSmartThingsToken\<close> returns: a decrypted stored entry
  (with \<open>enabled\<close> and \<open>updatedAt\<close>) or the environment entry (without them).
\<close>

record token_entry =
  t_id :: string
  t_label :: string
  t_token :: string
  t_enabled :: "bool option"
  t_updatedAt :: "int option"

text \<open>An action of a stored routine; \<open>other_type\<close> is any \<open>type\<close> the runner does not know.\<close>

datatype action_type =
    device_toggle bool
  | device_command string string "jsval list"
  | other_type jsval

record action =
  a_id :: jsval
  a_deviceId :: string
  a_sourceId :: "string option"
  a_deviceName :: "string option"
  a_type :: action_type

datatype trigger =
    time_trigger string jsval
  | interval_trigger jsnum

text \<open>
  A routine of \<open>data/routines.json\<close>.  A field that the object may lack is an option:
  the scheduler guards \<open>enabled\<close>, \<open>trigger\<close> and \<open>actions\<close> against absence, and
  \<open>lastRunAt\<close> starts as \<open>null\<close>.
\<close>

record routine =
  r_id :: string
  r_name :: "string option"
  r_enabled :: "bool option"
  r_trigger :: "trigger option"
  r_actions :: "action list option"
  r_createdAt :: int
  r_updatedAt :: "int option"
  r_lastRunAt :: "int option"

text \<open>One line of the activity log.\<close>

record log_entry =
  l_device :: string
  l_action :: string
  l_timestamp :: int

text \<open>The calls the server makes to the remote device API, and what comes back.\<close>

datatype api_request =
    GetStatus string string
  | GetHealth string string
  | PostCommands string string string string string "jsval list"

datatype api_response =
    Unreachable
  | Response nat string "jsval option"

text \<open>A \<open>Buffer\<close>: a list of bytes, one \<open>char\<close> each.\<close>

type_synonym buffer = "char list"

text \<open>\<open>new Date()\<close>: the three readings the scheduler takes from it.\<close>

record js_date =
  toTimeString :: string
  toDateString :: string
  getDay :: int

section \<open>The platform and the state of the process\<close>

text \<open>
  What the server takes from the runtime and the outside world: the environment
  variable read at start-up, the random generator, the clock, the network and the
  cipher.  The \<open>k\<close>-th call of a source of effects returns the value at index \<open>k\<close>.
\<close>

record platform = builtins +
  ENV_SMARTTHINGS_TOKEN :: "string option"
  randomHex :: "nat \<Rightarrow> nat \<Rightarrow> string"
  dateNow :: "nat \<Rightarrow> int"
  newDate :: "nat \<Rightarrow> js_date"
  fetch :: "nat \<Rightarrow> api_request \<Rightarrow> api_response"
  bufferFrom :: "jsval \<Rightarrow> string \<Rightarrow> error + buffer"
  aes256gcmDecrypt :: "buffer \<Rightarrow> buffer \<Rightarrow> buffer \<Rightarrow> buffer \<Rightarrow> error + buffer"
  utf8ToString :: "buffer \<Rightarrow> string"

record world =
  rndCalls :: nat
  clockCalls :: nat
  fetchCalls :: nat
  keyFile :: "string option"
  integrationFile :: "cred_entry list"
  routineFile :: "routine list"
  logFile :: "log_entry list"
  routineRunTracker :: "string \<rightharpoonup> string"

definition MAX_ACTIONS_PER_ROUTINE :: nat where
  "MAX_ACTIONS_PER_ROUTINE = 20"

text \<open>\<open>Date.now()\<close> and \<open>crypto.randomBytes(n).toString("hex")\<close>.\<close>

definition Date_now :: "'a platform_scheme \<Rightarrow> world \<Rightarrow> int \<times> world" where
  "Date_now P w = (dateNow P (clockCalls w), w\<lparr>clockCalls := Suc (clockCalls w)\<rparr>)"

definition randomBytesHex :: "'a platform_scheme \<Rightarrow> nat \<Rightarrow> world \<Rightarrow> string \<times> world" where
  "randomBytesHex P n w = (randomHex P (rndCalls w) n, w\<lparr>rndCalls := Suc (rndCalls w)\<rparr>)"

section \<open>Routine store: validation\<close>

definition charCode :: "char \<Rightarrow> nat" where
  "charCode c = of_char c"

definition isDigit :: "char \<Rightarrow> bool" where
  "isDigit c = (48 \<le> charCode c \<and> charCode c \<le> 57)"

text \<open>The regular expression \<open>^([01]\d|2[0-3]):[0-5]\d$\<close>.\<close>

fun matchesTime :: "string \<Rightarrow> bool" where
  "matchesTime [h1, h2, c, m1, m2] =
     (((h1 = CHR ''0'' \<or> h1 = CHR ''1'') \<and> isDigit h2
        \<or> h1 = CHR ''2'' \<and> 48 \<le> charCode h2 \<and> charCode h2 \<le> 51)
      \<and> c = CHR '':''
      \<and> 48 \<le> charCode m1 \<and> charCode m1 \<le> 53 \<and> isDigit m2)"
| "matchesTime s = False"

definition isValidTimeString :: "'a platform_scheme \<Rightarrow> jsval \<Rightarrow> bool" where
  "isValidTimeString P v = matchesTime (trim (ToString P (jsOr v (JStr []))))"

definition normalizeDays :: "'a platform_scheme \<Rightarrow> jsval \<Rightarrow> jsnum list" where
  "normalizeDays P days =
     (case days of
        JArr ds \<Rightarrow>
          dedupe []
            (filter (\<lambda>d. isInteger d \<and> num_le (Fin 0) d \<and> num_le d (Fin 6))
               (map (ToNumber P) ds))
      | _ \<Rightarrow> [])"

text \<open>
  The body of the loop of \<open>normalizeActions\<close> for one element: \<open>Inr None\<close> is
  \<open>continue\<close> without a push, \<open>Inr (Some a)\<close> pushes \<open>a\<close>, and \<open>Inl TypeError\<close> is the
  exception of \<open>.trim()\<close> on a value that is not a string (\<open>trimOf v\<close> is
  \<open>(v || "").trim()\<close>).  The first test is \<open>if (!action || !action.deviceId) continue\<close>
  with its branches exchanged; the placeholder \<open>a_type\<close> of \<open>base\<close> is overwritten
  before any push.
\<close>

definition trimOf :: "jsval \<Rightarrow> error + string" where
  "trimOf v = (case jsOr v (JStr []) of JStr s \<Rightarrow> Inr (trim s) | _ \<Rightarrow> Inl TypeError)"

definition normalizeAction ::
  "'a platform_scheme \<Rightarrow> jsval \<Rightarrow> world \<Rightarrow> (error + action option) \<times> world" where
  "normalizeAction P action w =
     (if truthy action \<and> truthy (getProp action ''deviceId'') then
        (let (aid, w') =
               (if truthy (getProp action ''id'') then (getProp action ''id'', w)
                else (let (h, w') = randomBytesHex P 6 w in (JStr h, w')));
             deviceId = ToString P (getProp action ''deviceId'');
             sourceId =
               (if truthy (getProp action ''sourceId'')
                then Some (ToString P (getProp action ''sourceId'')) else None);
             deviceName =
               (if truthy (getProp action ''deviceName'')
                then Some (take 120 (ToString P (getProp action ''deviceName''))) else None);
             base = \<lparr>a_id = aid, a_deviceId = deviceId, a_sourceId = sourceId,
                     a_deviceName = deviceName, a_type = other_type Undefined\<rparr>
         in
         if getProp action ''type'' = JStr ''device_toggle'' then
           (case getProp action ''desiredState'' of
              JBool b \<Rightarrow> (Inr (Some (base\<lparr>a_type := device_toggle b\<rparr>)), w')
            | _ \<Rightarrow>
              (case getProp action ''on'' of
                 JBool b \<Rightarrow> (Inr (Some (base\<lparr>a_type := device_toggle b\<rparr>)), w')
               | _ \<Rightarrow> (Inr None, w')))
         else if getProp action ''type'' = JStr ''device_command'' then
           (case trimOf (getProp action ''capability'') of
              Inl e \<Rightarrow> (Inl e, w')
            | Inr capability \<Rightarrow>
              (case trimOf (getProp action ''command'') of
                 Inl e \<Rightarrow> (Inl e, w')
               | Inr command \<Rightarrow>
                   if capability = [] \<or> command = [] then (Inr None, w')
                   else
                     (Inr (Some (base\<lparr>a_type :=
                         device_command capability command
                           (case getProp action ''arguments'' of JArr args \<Rightarrow> args | _ \<Rightarrow> [])\<rparr>)),
                      w')))
         else (Inr None, w'))
      else (Inr None, w))"

fun normalizeLoop ::
  "'a platform_scheme \<Rightarrow> jsval list \<Rightarrow> action list \<Rightarrow> world \<Rightarrow> (error + action list) \<times> world" where
  "normalizeLoop P [] normalized w = (Inr normalized, w)"
| "normalizeLoop P (a # rest) normalized w =
     (case normalizeAction P a w of
        (Inl e, w') \<Rightarrow> (Inl e, w')
      | (Inr None, w') \<Rightarrow> normalizeLoop P rest normalized w'
      | (Inr (Some x), w') \<Rightarrow> normalizeLoop P rest (normalized @ [x]) w')"

definition normalizeActions ::
  "'a platform_scheme \<Rightarrow> jsval \<Rightarrow> world \<Rightarrow> (error + action list) \<times> world" where
  "normalizeActions P actions w =
     (let list = (case actions of JArr xs \<Rightarrow> xs | _ \<Rightarrow> if truthy actions then [actions] else [])
      in case normalizeLoop P list [] w of
           (Inl e, w') \<Rightarrow> (Inl e, w')
         | (Inr normalized, w') \<Rightarrow> (Inr (take MAX_ACTIONS_PER_ROUTINE normalized), w'))"

text \<open>
  The two messages with an umlaut, \<^verbatim>\<open>Ungueltiger Trigger\<close> and
  \<^verbatim>\<open>Ungueltige Aktionen\<close>, with \<^verbatim>\<open>ue\<close> the single code unit 252.
\<close>

definition msgInvalidTrigger :: string where
  "msgInvalidTrigger = ''Ung'' @ [char_of (252::nat)] @ ''ltiger Trigger''"

definition msgInvalidActions :: string where
  "msgInvalidActions = ''Ung'' @ [char_of (252::nat)] @ ''ltige Aktionen''"

text \<open>
  \<open>buildRoutineFromPayload\<close> returns \<open>{ error }\<close> or \<open>{ routine }\<close>; it can also throw,
  through \<open>normalizeActions\<close>.  Its body is four blocks, one per payload key, each of
  which either updates \<open>base\<close> or returns the error object.  The test of the last block,
  \<open>payload.actions !== undefined || payload.action !== undefined\<close>, is written with its
  branches exchanged.
\<close>

datatype build_result = Rejected string | Built routine

definition nameBlock :: "'a platform_scheme \<Rightarrow> jsval \<Rightarrow> routine \<Rightarrow> string + routine" where
  "nameBlock P payload base =
     (if getProp payload ''name'' \<noteq> Undefined then
        (let name = trim (ToString P (jsOr (getProp payload ''name'') (JStr [])))
         in if name = [] then Inl ''Name fehlt''
            else Inr (base\<lparr>r_name := Some (take 120 name)\<rparr>))
      else Inr base)"

definition enabledBlock :: "jsval \<Rightarrow> routine option \<Rightarrow> routine \<Rightarrow> routine" where
  "enabledBlock payload existing base =
     (if getProp payload ''enabled'' \<noteq> Undefined
      then base\<lparr>r_enabled := Some (truthy (getProp payload ''enabled''))\<rparr>
      else if existing = None then base\<lparr>r_enabled := Some True\<rparr>
      else base)"

definition clampEveryMinutes :: "jsnum \<Rightarrow> jsnum" where
  "clampEveryMinutes n = Math_max (Fin 1) (Math_min (Fin 1440) (numOrZero n))"

definition triggerBlock ::
  "'a platform_scheme \<Rightarrow> jsval \<Rightarrow> routine option \<Rightarrow> routine \<Rightarrow> string + routine" where
  "triggerBlock P payload existing base =
     (if getProp payload ''trigger'' \<noteq> Undefined then
        (let trigger = jsOr (getProp payload ''trigger'') (JObj [])
         in if getProp trigger ''type'' = JStr ''time'' then
              (if \<not> isValidTimeString P (getProp trigger ''time'') then Inl msgInvalidTrigger
               else
                 (let days = normalizeDays P (getProp trigger ''days'')
                  in Inr (base\<lparr>r_trigger :=
                       Some (time_trigger (trim (ToString P (getProp trigger ''time'')))
                               (JArr (map JNum days)))\<rparr>)))
            else if getProp trigger ''type'' = JStr ''interval'' then
              (let everyMinutes = clampEveryMinutes (ToNumber P (getProp trigger ''everyMinutes''))
               in if everyMinutes = NaN \<or> everyMinutes = Fin 0 then Inl msgInvalidTrigger
                  else Inr (base\<lparr>r_trigger := Some (interval_trigger everyMinutes)\<rparr>))
            else Inl msgInvalidTrigger)
      else if existing = None then Inl ''Trigger fehlt''
      else Inr base)"

definition actionsBlock ::
  "'a platform_scheme \<Rightarrow> jsval \<Rightarrow> routine option \<Rightarrow> routine \<Rightarrow> world
     \<Rightarrow> (error + string + routine) \<times> world" where
  "actionsBlock P payload existing base w =
     (if getProp payload ''actions'' = Undefined \<and> getProp payload ''action'' = Undefined then
        (if existing = None then (Inr (Inl ''Aktionen fehlen''), w)
         else (Inr (Inr base), w))
      else
        (case normalizeActions P (jsOr (getProp payload ''actions'') (getProp payload ''action'')) w of
           (Inl e, w') \<Rightarrow> (Inl e, w')
         | (Inr actions, w') \<Rightarrow>
             if actions = [] then (Inr (Inl msgInvalidActions), w')
             else (Inr (Inr (base\<lparr>r_actions := Some actions\<rparr>)), w')))"

text \<open>
  The payload is \<open>req.body || {}\<close>, so it is never \<open>null\<close> or \<open>undefined\<close>; \<open>existing\<close> is
  \<open>None\<close> on the create path and the stored routine on the update path.
\<close>

definition buildRoutineFromPayload ::
  "'a platform_scheme \<Rightarrow> jsval \<Rightarrow> routine option \<Rightarrow> world \<Rightarrow> (error + build_result) \<times> world" where
  "buildRoutineFromPayload P payload existing w0 =
     (let (now, w1) = Date_now P w0;
          (base0, w2) =
            (case existing of
               Some e \<Rightarrow> (e, w1)
             | None \<Rightarrow>
                 (let (h, w') = randomBytesHex P 8 w1
                  in (\<lparr>r_id = h, r_name = None, r_enabled = None, r_trigger = None,
                       r_actions = None, r_createdAt = now, r_updatedAt = None,
                       r_lastRunAt = None\<rparr>, w')))
      in case nameBlock P payload base0 of
           Inl msg \<Rightarrow> (Inr (Rejected msg), w2)
         | Inr base1 \<Rightarrow>
             (case triggerBlock P payload existing (enabledBlock payload existing base1) of
                Inl msg \<Rightarrow> (Inr (Rejected msg), w2)
              | Inr base3 \<Rightarrow>
                  (case actionsBlock P payload existing base3 w2 of
                     (Inl e, w3) \<Rightarrow> (Inl e, w3)
                   | (Inr (Inl msg), w3) \<Rightarrow> (Inr (Rejected msg), w3)
                   | (Inr (Inr base4), w3) \<Rightarrow>
                       (Inr (Built (base4\<lparr>r_updatedAt := Some now\<rparr>)), w3))))"


section \<open>Secret vault and credential store\<close>

text \<open>
  \<open>decryptSecret\<close>: the guard on a falsy payload, then the split of the decoded buffer
  at bytes 12 and 28 and the call of the cipher.  Every exception of the library
  (a payload \<open>Buffer.from\<close> refuses, a bad key, a tag that does not verify) is an \<open>Inl\<close>.
\<close>

definition decryptSecret :: "'a platform_scheme \<Rightarrow> jsval \<Rightarrow> buffer \<Rightarrow> error + string" where
  "decryptSecret P payload key =
     (if \<not> truthy payload then Inr []
      else
        case bufferFrom P payload ''base64'' of
          Inl e \<Rightarrow> Inl e
        | Inr buf \<Rightarrow>
            (let iv = take 12 buf;
                 tag = take (28 - 12) (drop 12 buf);
                 data = drop 28 buf
             in case aes256gcmDecrypt P key iv tag data of
                  Inl e \<Rightarrow> Inl e
                | Inr dec \<Rightarrow> Inr (utf8ToString P dec)))"

definition getKey :: "'a platform_scheme \<Rightarrow> world \<Rightarrow> error + buffer" where
  "getKey P w =
     (case keyFile w of
        None \<Rightarrow> Inl FileError
      | Some hex \<Rightarrow> bufferFrom P (JStr (trim hex)) ''hex'')"

text \<open>
  \<open>getStoredSmartThingsTokens\<close>: an entry whose token does not decrypt maps to \<open>null\<close>
  and is filtered out.  \<open>readIntegrations\<close> never throws; the entries it returns are
  \<open>integrationFile\<close>.
\<close>

definition storedToken :: "'a platform_scheme \<Rightarrow> buffer \<Rightarrow> cred_entry \<Rightarrow> token_entry option" where
  "storedToken P key entry =
     (case decryptSecret P (e_token entry) key of
        Inl e \<Rightarrow> None
      | Inr token \<Rightarrow>
          Some \<lparr>t_id = e_id entry, t_label = e_label entry, t_token = token,
                t_enabled = Some (truthy (e_enabled entry)),
                t_updatedAt = Some (e_updatedAt entry)\<rparr>)"

definition getStoredSmartThingsTokens :: "'a platform_scheme \<Rightarrow> world \<Rightarrow> error + token_entry list" where
  "getStoredSmartThingsTokens P w =
     (case getKey P w of
        Inl e \<Rightarrow> Inl e
      | Inr key \<Rightarrow> Inr (List.map_filter (storedToken P key) (integrationFile w)))"

definition envEntry :: "string \<Rightarrow> token_entry" where
  "envEntry token =
     \<lparr>t_id = ''env'', t_label = ''Env Token'', t_token = token,
      t_enabled = None, t_updatedAt = None\<rparr>"

definition resolveSmartThingsToken :: "'a platform_scheme \<Rightarrow> world \<Rightarrow> error + token_entry list" where
  "resolveSmartThingsToken P w =
     (case ENV_SMARTTHINGS_TOKEN P of
        Some (c # cs) \<Rightarrow> Inr [envEntry (c # cs)]
      | _ \<Rightarrow>
          (case getStoredSmartThingsTokens P w of
             Inl e \<Rightarrow> Inl e
           | Inr stored \<Rightarrow>
               (let enabled = filter (\<lambda>e. t_enabled e = Some True) stored
                in if length enabled > 0 then Inr enabled else Inl TokenMissing)))"

section \<open>Remote command dispatcher\<close>

record device_state =
  s_on :: bool
  s_online :: bool

definition isOk :: "nat \<Rightarrow> bool" where
  "isOk status = (200 \<le> status \<and> status \<le> 299)"

text \<open>One \<open>fetch\<close>, with the count of calls advanced.\<close>

definition doFetch :: "'a platform_scheme \<Rightarrow> api_request \<Rightarrow> world \<Rightarrow> api_response \<times> world" where
  "doFetch P req w = (fetch P (fetchCalls w) req, w\<lparr>fetchCalls := Suc (fetchCalls w)\<rparr>)"

definition getDeviceStatus ::
  "'a platform_scheme \<Rightarrow> string \<Rightarrow> string \<Rightarrow> world \<Rightarrow> (error + device_state) \<times> world" where
  "getDeviceStatus P deviceId token w =
     (case doFetch P (GetStatus deviceId token) w of
        (Unreachable, w1) \<Rightarrow> (Inl NetworkError, w1)
      | (Response status text None, w1) \<Rightarrow> (Inl JsonError, w1)
      | (Response status text (Some statusData), w1) \<Rightarrow>
          (case propT statusData ''components'' of
             Inl e \<Rightarrow> (Inl e, w1)
           | Inr components \<Rightarrow>
               (let main = jsOr (propOpt components ''main'') (JObj []);
                    on = (propOpt (propOpt (propOpt main ''switch'') ''switch'') ''value''
                            = JStr ''on'')
                in case doFetch P (GetHealth deviceId token) w1 of
                     (Unreachable, w2) \<Rightarrow> (Inl NetworkError, w2)
                   | (Response hstatus htext None, w2) \<Rightarrow> (Inl JsonError, w2)
                   | (Response hstatus htext (Some healthData), w2) \<Rightarrow>
                       (case propT healthData ''state'' of
                          Inl e \<Rightarrow> (Inl e, w2)
                        | Inr state \<Rightarrow>
                            (Inr \<lparr>s_on = on, s_online = (state = JStr ''ONLINE'')\<rparr>, w2)))))"

definition sendSmartThingsCommand ::
  "'a platform_scheme \<Rightarrow> string \<Rightarrow> token_entry \<Rightarrow> string \<Rightarrow> string \<Rightarrow> jsval list \<Rightarrow> world
     \<Rightarrow> (error + jsval \<times> device_state \<times> token_entry) \<times> world" where
  "sendSmartThingsCommand P deviceId source capability command args w =
     (case doFetch P (PostCommands deviceId (t_token source) ''main'' capability command args) w of
        (Unreachable, w1) \<Rightarrow> (Inl NetworkError, w1)
      | (Response status text json, w1) \<Rightarrow>
          if \<not> isOk status then (Inl (CommandFailed status text), w1)
          else
            (case json of
               None \<Rightarrow> (Inl JsonError, w1)
             | Some result \<Rightarrow>
                 (case getDeviceStatus P deviceId (t_token source) w1 of
                    (Inl e, w2) \<Rightarrow> (Inl e, w2)
                  | (Inr liveStatus, w2) \<Rightarrow> (Inr (result, liveStatus, source), w2))))"

text \<open>
  The choice of the credential, written twice in the source (the first lines of
  \<open>toggleSmartThingsDevice\<close> and of the command branch of \<open>runRoutineActions\<close>):
  \<open>tokens = await resolveSmartThingsToken()\<close>, then
  \<open>sourceId ? tokens.find((t) => t.id === sourceId) : tokens[0]\<close>, and the throw when
  the result is \<open>undefined\<close>.  \<open>tokenEntryFor\<close> is the choice, \<open>sourceFor\<close> the three
  lines together.
\<close>

definition tokenEntryFor :: "token_entry list \<Rightarrow> jsval \<Rightarrow> error + token_entry" where
  "tokenEntryFor tokens sourceId =
     (case (if truthy sourceId then find (\<lambda>t. JStr (t_id t) = sourceId) tokens
            else (case tokens of [] \<Rightarrow> None | t # ts \<Rightarrow> Some t)) of
        None \<Rightarrow> Inl SourceNotFound
      | Some tokenEntry \<Rightarrow> Inr tokenEntry)"

definition sourceFor :: "'a platform_scheme \<Rightarrow> world \<Rightarrow> jsval \<Rightarrow> error + token_entry" where
  "sourceFor P w sourceId =
     (case resolveSmartThingsToken P w of
        Inl e \<Rightarrow> Inl e
      | Inr tokens \<Rightarrow> tokenEntryFor tokens sourceId)"

definition toggleSmartThingsDevice ::
  "'a platform_scheme \<Rightarrow> string \<Rightarrow> jsval \<Rightarrow> jsval \<Rightarrow> world
     \<Rightarrow> (error + jsval \<times> device_state \<times> token_entry) \<times> world" where
  "toggleSmartThingsDevice P deviceId on sourceId w =
     (case sourceFor P w sourceId of
        Inl e \<Rightarrow> (Inl e, w)
      | Inr tokenEntry \<Rightarrow>
          sendSmartThingsCommand P deviceId tokenEntry ''switch''
            (if truthy on then ''on'' else ''off'') [] w)"

section \<open>Scheduler\<close>

text \<open>An entry of the result list of a routine run: \<open>{ ok, actionId, state?, error? }\<close>.\<close>

datatype failure = UnsupportedActionType | Thrown error

record action_result =
  res_ok :: bool
  res_actionId :: jsval
  res_state :: "device_state option"
  res_error :: "failure option"

definition optStr :: "string option \<Rightarrow> jsval" where
  "optStr s = (case s of None \<Rightarrow> Undefined | Some x \<Rightarrow> JStr x)"

text \<open>
  \<open>appendLog\<close> with its three defaults.  A failure to write the file is caught and
  logged to the console there; the model appends.
\<close>

definition appendLog :: "'a platform_scheme \<Rightarrow> string \<Rightarrow> string \<Rightarrow> int \<Rightarrow> world \<Rightarrow> world" where
  "appendLog P device action timestamp w =
     (let (ts, w1) = (if timestamp \<noteq> 0 then (timestamp, w) else Date_now P w)
      in w1\<lparr>logFile := logFile w1 @
           [\<lparr>l_device = (if device = [] then ''Unbekannt'' else device),
             l_action = (if action = [] then ''unknown'' else action),
             l_timestamp = ts\<rparr>]\<rparr>)"

text \<open>\<open>action.deviceName || routine.name || action.deviceId\<close>.\<close>

definition logDevice :: "routine \<Rightarrow> action \<Rightarrow> string" where
  "logDevice routine action =
     (case a_deviceName action of
        Some (c # cs) \<Rightarrow> c # cs
      | _ \<Rightarrow> (case r_name routine of Some (c # cs) \<Rightarrow> c # cs | _ \<Rightarrow> a_deviceId action))"

text \<open>The body of the \<open>try\<close> of \<open>runRoutineActions\<close> for one action; \<open>Inl\<close> is a throw.\<close>

definition performAction ::
  "'a platform_scheme \<Rightarrow> routine \<Rightarrow> action \<Rightarrow> world \<Rightarrow> (error + action_result) \<times> world" where
  "performAction P routine action w =
     (case a_type action of
        device_toggle desiredState \<Rightarrow>
          (case toggleSmartThingsDevice P (a_deviceId action) (JBool desiredState)
                  (optStr (a_sourceId action)) w of
             (Inl e, w1) \<Rightarrow> (Inl e, w1)
           | (Inr (result, state, source), w1) \<Rightarrow>
               (let (ts, w2) = Date_now P w1;
                    w3 = appendLog P (logDevice routine action)
                           (if desiredState then ''on'' else ''off'') ts w2
                in (Inr \<lparr>res_ok = True, res_actionId = a_id action,
                         res_state = Some state, res_error = None\<rparr>, w3)))
      | device_command capability command args \<Rightarrow>
          (case sourceFor P w (optStr (a_sourceId action)) of
             Inl e \<Rightarrow> (Inl e, w)
           | Inr tokenEntry \<Rightarrow>
               (case sendSmartThingsCommand P (a_deviceId action) tokenEntry
                       capability command args w of
                  (Inl e, w1) \<Rightarrow> (Inl e, w1)
                | (Inr (result, state, source), w1) \<Rightarrow>
                    (let (ts, w2) = Date_now P w1;
                         w3 = appendLog P (logDevice routine action)
                                (capability @ '':'' @ command) ts w2
                     in (Inr \<lparr>res_ok = True, res_actionId = a_id action,
                              res_state = Some state, res_error = None\<rparr>, w3))))
      | other_type t \<Rightarrow>
          (Inr \<lparr>res_ok = False, res_actionId = a_id action, res_state = None,
                res_error = Some UnsupportedActionType\<rparr>, w))"

text \<open>One turn of the loop: the \<open>try\<close> body, and the \<open>catch\<close> that pushes the failure.\<close>

definition runAction ::
  "'a platform_scheme \<Rightarrow> routine \<Rightarrow> action \<Rightarrow> world \<Rightarrow> action_result \<times> world" where
  "runAction P routine action w =
     (case performAction P routine action w of
        (Inl err, w') \<Rightarrow>
          (\<lparr>res_ok = False, res_actionId = a_id action, res_state = None,
            res_error = Some (Thrown err)\<rparr>, w')
      | (Inr res, w') \<Rightarrow> (res, w'))"

fun runActions ::
  "'a platform_scheme \<Rightarrow> routine \<Rightarrow> action list \<Rightarrow> world \<Rightarrow> action_result list \<times> world" where
  "runActions P routine [] w = ([], w)"
| "runActions P routine (action # rest) w =
     (let (res, w1) = runAction P routine action w;
          (results, w2) = runActions P routine rest w1
      in (res # results, w2))"

definition runRoutineActions ::
  "'a platform_scheme \<Rightarrow> routine \<Rightarrow> world \<Rightarrow> action_result list \<times> world" where
  "runRoutineActions P routine w =
     runActions P routine (case r_actions routine of None \<Rightarrow> [] | Some as \<Rightarrow> as) w"

text \<open>\<open>n * c\<close> for a positive constant \<open>c\<close>: a non-finite \<open>n\<close> stays what it is.\<close>

fun timesPos :: "jsnum \<Rightarrow> real \<Rightarrow> jsnum" where
  "timesPos (Fin x) c = Fin (x * c)"
| "timesPos n c = n"

definition slotKey :: "js_date \<Rightarrow> string" where
  "slotKey now = toDateString now @ ''-'' @ take 5 (toTimeString now)"

text \<open>
  The callback that \<open>evaluateRoutines\<close> maps over the stored routines.  It returns the
  copy \<open>updated\<close> and, when the routine fires, the routine handed to
  \<open>runRoutineActions\<close>; the run itself is launched and not awaited, so it is not part of
  the pass.  The tracker and the clock are in the world.
\<close>

definition evaluateRoutine ::
  "'a platform_scheme \<Rightarrow> js_date \<Rightarrow> routine \<Rightarrow> world \<Rightarrow> (routine \<times> routine option) \<times> world" where
  "evaluateRoutine P now routine w =
     (let hhmm = take 5 (toTimeString now);
          currentDay = getDay now;
          updated = routine
      in if r_enabled updated \<noteq> Some True then ((updated, None), w)
         else
           case r_trigger updated of
             None \<Rightarrow> ((updated, None), w)
           | Some (time_trigger time tdays) \<Rightarrow>
               if time = hhmm then
                 (let days = normalizeDays P tdays
                  in if length days > 0 \<and> Fin (of_int currentDay) \<notin> set days
                     then ((updated, None), w)
                     else
                       (let key = slotKey now
                        in if routineRunTracker w (r_id updated) = Some key
                           then ((updated, None), w)
                           else
                             (let w1 = w\<lparr>routineRunTracker :=
                                          (routineRunTracker w)(r_id updated \<mapsto> key)\<rparr>;
                                  (t, w2) = Date_now P w1
                              in ((updated\<lparr>r_lastRunAt := Some t\<rparr>, Some updated), w2))))
               else ((updated, None), w)
           | Some (interval_trigger em) \<Rightarrow>
               (let everyMinutes = clampEveryMinutes em;
                    last = (case r_lastRunAt updated of None \<Rightarrow> 0 | Some l \<Rightarrow> l);
                    (t, w1) = Date_now P w
                in if num_le (timesPos (timesPos everyMinutes 60) 1000) (Fin (of_int (t - last)))
                   then
                     (let (t', w2) = Date_now P w1
                      in ((updated\<lparr>r_lastRunAt := Some t'\<rparr>, Some updated), w2))
                   else ((updated, None), w1)))"

fun mapRoutines ::
  "'a platform_scheme \<Rightarrow> js_date \<Rightarrow> routine list \<Rightarrow> world
     \<Rightarrow> (routine list \<times> routine list) \<times> world" where
  "mapRoutines P now [] w = (([], []), w)"
| "mapRoutines P now (routine # rest) w =
     (let ((updated, fired), w1) = evaluateRoutine P now routine w;
          ((updatedRest, launchedRest), w2) = mapRoutines P now rest w1
      in ((updated # updatedRest,
           (case fired of None \<Rightarrow> [] | Some r \<Rightarrow> [r]) @ launchedRest), w2))"

text \<open>
  One evaluation pass: read the routines, take the wall clock, map the callback, and
  rewrite the file when \<open>changed\<close> is set, which the callback does exactly where it
  launches a routine.  It returns the routines launched, in order.
\<close>

definition evaluateRoutines :: "'a platform_scheme \<Rightarrow> world \<Rightarrow> routine list \<times> world" where
  "evaluateRoutines P w =
     (let now = newDate P (clockCalls w);
          w0 = w\<lparr>clockCalls := Suc (clockCalls w)\<rparr>;
          ((updatedRoutines, launched), w1) = mapRoutines P now (routineFile w0) w0
      in if launched \<noteq> [] then (launched, w1\<lparr>routineFile := updatedRoutines\<rparr>)
         else (launched, w1))"


section \<open>A concrete platform and concrete inputs\<close>

text \<open>
  A small platform on which the functions above can be run: a remote API that answers
  every command with 200 except for the device \<open>broken\<close>, and a stand-in for the cipher
  that accepts a blob whose tag is sixteen \<open>T\<close> and returns its data bytes.
\<close>

definition exStatusBody :: jsval where
  "exStatusBody =
     JObj [(''components'',
            JObj [(''main'',
                   JObj [(''switch'', JObj [(''switch'', JObj [(''value'', JStr ''on'')])])])])]"

definition exFetch :: "nat \<Rightarrow> api_request \<Rightarrow> api_response" where
  "exFetch k req =
     (case req of
        PostCommands deviceId token component capability command args \<Rightarrow>
          if deviceId = ''broken'' then Response 500 ''boom'' None
          else Response 200 ''{}'' (Some (JObj []))
      | GetStatus deviceId token \<Rightarrow> Response 200 [] (Some exStatusBody)
      | GetHealth deviceId token \<Rightarrow> Response 200 [] (Some (JObj [(''state'', JStr ''ONLINE'')])))"

definition exBufferFrom :: "jsval \<Rightarrow> string \<Rightarrow> error + buffer" where
  "exBufferFrom v enc = (case v of JStr s \<Rightarrow> Inr s | _ \<Rightarrow> Inl TypeError)"

definition exDecrypt :: "buffer \<Rightarrow> buffer \<Rightarrow> buffer \<Rightarrow> buffer \<Rightarrow> error + buffer" where
  "exDecrypt key iv tag data = (if tag = ''TTTTTTTTTTTTTTTT'' then Inr data else Inl CryptoError)"

definition exDate :: js_date where
  "exDate = \<lparr>toTimeString = ''10:00:00 GMT+0000'', toDateString = ''Mon Nov 02 2026'',
             getDay = 1\<rparr>"

definition exNow :: int where
  "exNow = 1793613600000"

definition exPlatform :: platform where
  "exPlatform =
     \<lparr>stringToNumber = (\<lambda>s. NaN), numberToString = (\<lambda>n. ''NaN''),
      ENV_SMARTTHINGS_TOKEN = None,
      randomHex = (\<lambda>k n. replicate (2 * n) (CHR ''0'')),
      dateNow = (\<lambda>k. exNow),
      newDate = (\<lambda>k. exDate),
      fetch = exFetch, bufferFrom = exBufferFrom, aes256gcmDecrypt = exDecrypt,
      utf8ToString = (\<lambda>bs. bs)\<rparr>"

definition exEnvPlatform :: platform where
  "exEnvPlatform = exPlatform\<lparr>ENV_SMARTTHINGS_TOKEN := Some ''env-token''\<rparr>"

definition exEntryA :: cred_entry where
  "exEntryA = \<lparr>e_id = ''a'', e_label = ''A'', e_enabled = JBool False,
                e_token = JStr ''NNNNNNNNNNNNTTTTTTTTTTTTTTTTtoken-a'', e_updatedAt = 1\<rparr>"

definition exEntryB :: cred_entry where
  "exEntryB = \<lparr>e_id = ''b'', e_label = ''B'', e_enabled = JBool True,
                e_token = JStr ''NNNNNNNNNNNNTTTTTTTTTTTTTTTTtoken-b'', e_updatedAt = 2\<rparr>"

definition exTokenA :: token_entry where
  "exTokenA = \<lparr>t_id = ''a'', t_label = ''A'', t_token = ''token-a'',
                t_enabled = Some False, t_updatedAt = Some 1\<rparr>"

definition exTokenB :: token_entry where
  "exTokenB = \<lparr>t_id = ''b'', t_label = ''B'', t_token = ''token-b'',
                t_enabled = Some True, t_updatedAt = Some 2\<rparr>"

definition exToggle :: "string \<Rightarrow> string \<Rightarrow> action" where
  "exToggle aid deviceId =
     \<lparr>a_id = JStr aid, a_deviceId = deviceId, a_sourceId = None, a_deviceName = None,
      a_type = device_toggle True\<rparr>"

definition exTimeRoutine :: routine where
  "exTimeRoutine =
     \<lparr>r_id = ''r1'', r_name = Some ''morning'', r_enabled = Some True,
      r_trigger = Some (time_trigger ''10:00'' (JArr [])),
      r_actions = Some [exToggle ''a1'' ''lamp''],
      r_createdAt = 5, r_updatedAt = Some 5, r_lastRunAt = None\<rparr>"


definition exThreeActions :: routine where
  "exThreeActions =
     \<lparr>r_id = ''r3'', r_name = Some ''evening'', r_enabled = Some True,
      r_trigger = Some (interval_trigger (Fin 5)),
      r_actions = Some [exToggle ''a1'' ''lamp'', exToggle ''a2'' ''broken'', exToggle ''a3'' ''fan''],
      r_createdAt = 5, r_updatedAt = Some 5, r_lastRunAt = None\<rparr>"

definition exWorld :: world where
  "exWorld =
     \<lparr>rndCalls = 0, clockCalls = 0, fetchCalls = 0, keyFile = Some ''00'',
      integrationFile = [exEntryA, exEntryB], routineFile = [exTimeRoutine], logFile = [],
      routineRunTracker = Map.empty\<rparr>"

text \<open>Request bodies.\<close>

definition toggleJson :: "string \<Rightarrow> jsval" where
  "toggleJson deviceId =
     JObj [(''id'', JStr ''a1''), (''type'', JStr ''device_toggle''),
           (''deviceId'', JStr deviceId), (''on'', JBool True)]"

definition intervalCreatePayload :: "jsval \<Rightarrow> jsval" where
  "intervalCreatePayload everyMinutes =
     JObj [(''name'', JStr ''r''),
           (''trigger'', JObj [(''type'', JStr ''interval''), (''everyMinutes'', everyMinutes)]),
           (''actions'', JArr [toggleJson ''d''])]"

definition badCommandJson :: jsval where
  "badCommandJson =
     JObj [(''id'', JStr ''a0''), (''type'', JStr ''device_command''),
           (''deviceId'', JStr ''d''), (''capability'', JNum (Fin 5)), (''command'', JStr [])]"

definition badCommandPayload :: jsval where
  "badCommandPayload =
     JObj [(''name'', JStr ''r''),
           (''trigger'', JObj [(''type'', JStr ''interval''), (''everyMinutes'', JNum (Fin 5))]),
           (''actions'', JArr [badCommandJson, toggleJson ''d''])]"

definition renamePayload :: jsval where
  "renamePayload = JObj [(''name'', JStr ''evening'')]"

definition aliasPayload :: jsval where
  "aliasPayload = JObj [(''action'', toggleJson ''fan'')]"

section \<open>Routine store: properties\<close>

lemmas build_defs =
  buildRoutineFromPayload_def Date_now_def randomBytesHex_def nameBlock_def enabledBlock_def
  triggerBlock_def actionsBlock_def normalizeActions_def normalizeAction_def jsOr_def
  trim_def isWhiteSpace_def clampEveryMinutes_def Math_max_def Math_min_def numOrZero_def
  MAX_ACTIONS_PER_ROUTINE_def trimOf_def

lemma clampEveryMinutes_range: "\<exists>x. clampEveryMinutes n = Fin x \<and> 1 \<le> x \<and> x \<le> 1440"
  by (cases n) (auto simp: clampEveryMinutes_def Math_max_def Math_min_def numOrZero_def)

text \<open>
  The interval branch of the trigger block never returns the error object: the value is
  clamped before it is tested, so the test \<open>!everyMinutes\<close> cannot succeed.
\<close>

lemma triggerBlock_interval_accepts:
  assumes "getProp (getProp payload ''trigger'') ''type'' = JStr ''interval''"
  shows "\<exists>x. 1 \<le> x \<and> x \<le> 1440 \<and>
           triggerBlock P payload existing base =
             Inr (base\<lparr>r_trigger := Some (interval_trigger (Fin x))\<rparr>)"
proof -
  let ?n = "ToNumber P (getProp (getProp payload ''trigger'') ''everyMinutes'')"
  obtain x where x: "clampEveryMinutes ?n = Fin x" "1 \<le> x" "x \<le> 1440"
    using clampEveryMinutes_range by blast
  from assms obtain kvs where t: "getProp payload ''trigger'' = JObj kvs"
    by (cases "getProp payload ''trigger''") auto
  have "triggerBlock P payload existing base =
          Inr (base\<lparr>r_trigger := Some (interval_trigger (Fin x))\<rparr>)"
    using assms x t by (auto simp: triggerBlock_def jsOr_def Let_def)
  with x show ?thesis by blast
qed

text \<open>
  C1.  The claim: the stored \<open>everyMinutes\<close> lies in \<open>[1,1440]\<close>, and a creation payload
  whose \<open>everyMinutes\<close> is \<open>0\<close> or \<open>NaN\<close> is rejected with a validation error.  On the code
  the second half fails: the creation payloads with \<open>everyMinutes: 0\<close> and with
  \<open>everyMinutes: {}\<close> (which \<open>Number\<close> maps to \<open>NaN\<close>) are both accepted, and the routine is
  built with \<open>everyMinutes = 1\<close>.
\<close>

theorem create_everyMinutes_zero_or_NaN_stored_as_one:
  "buildRoutineFromPayload P (intervalCreatePayload (JNum (Fin 0))) None w =
     (Inr (Built
        \<lparr>r_id = randomHex P (rndCalls w) 8, r_name = Some ''r'', r_enabled = Some True,
         r_trigger = Some (interval_trigger (Fin 1)),
         r_actions = Some [exToggle ''a1'' ''d''],
         r_createdAt = dateNow P (clockCalls w),
         r_updatedAt = Some (dateNow P (clockCalls w)), r_lastRunAt = None\<rparr>),
      w\<lparr>clockCalls := Suc (clockCalls w), rndCalls := Suc (rndCalls w)\<rparr>)
   \<and> ToNumber P (JObj []) = NaN
   \<and> buildRoutineFromPayload P (intervalCreatePayload (JObj [])) None w =
     (Inr (Built
        \<lparr>r_id = randomHex P (rndCalls w) 8, r_name = Some ''r'', r_enabled = Some True,
         r_trigger = Some (interval_trigger (Fin 1)),
         r_actions = Some [exToggle ''a1'' ''d''],
         r_createdAt = dateNow P (clockCalls w),
         r_updatedAt = Some (dateNow P (clockCalls w)), r_lastRunAt = None\<rparr>),
      w\<lparr>clockCalls := Suc (clockCalls w), rndCalls := Suc (rndCalls w)\<rparr>)"
  by (simp add: build_defs intervalCreatePayload_def toggleJson_def exToggle_def)


text \<open>What each block leaves alone.\<close>

lemma nameBlock_frame:
  "nameBlock P payload base = Inr b \<Longrightarrow>
     r_id b = r_id base \<and> r_createdAt b = r_createdAt base \<and> r_lastRunAt b = r_lastRunAt base
   \<and> r_enabled b = r_enabled base \<and> r_trigger b = r_trigger base \<and> r_actions b = r_actions base
   \<and> r_updatedAt b = r_updatedAt base
   \<and> (getProp payload ''name'' = Undefined \<longrightarrow> r_name b = r_name base)"
  by (auto simp: nameBlock_def Let_def split: if_splits)

lemma enabledBlock_frame:
  "r_id (enabledBlock payload (Some e) base) = r_id base
   \<and> r_createdAt (enabledBlock payload (Some e) base) = r_createdAt base
   \<and> r_lastRunAt (enabledBlock payload (Some e) base) = r_lastRunAt base
   \<and> r_name (enabledBlock payload (Some e) base) = r_name base
   \<and> r_trigger (enabledBlock payload (Some e) base) = r_trigger base
   \<and> r_actions (enabledBlock payload (Some e) base) = r_actions base
   \<and> r_updatedAt (enabledBlock payload (Some e) base) = r_updatedAt base
   \<and> (getProp payload ''enabled'' = Undefined \<longrightarrow>
        r_enabled (enabledBlock payload (Some e) base) = r_enabled base)"
  by (simp add: enabledBlock_def)

lemma triggerBlock_frame:
  "triggerBlock P payload existing base = Inr b \<Longrightarrow>
     r_id b = r_id base \<and> r_createdAt b = r_createdAt base \<and> r_lastRunAt b = r_lastRunAt base
   \<and> r_enabled b = r_enabled base \<and> r_name b = r_name base \<and> r_actions b = r_actions base
   \<and> r_updatedAt b = r_updatedAt base
   \<and> (getProp payload ''trigger'' = Undefined \<longrightarrow> r_trigger b = r_trigger base)"
  by (auto simp: triggerBlock_def Let_def split: if_splits)

lemma actionsBlock_frame:
  "actionsBlock P payload existing base w = (Inr (Inr b), w') \<Longrightarrow>
     r_id b = r_id base \<and> r_createdAt b = r_createdAt base \<and> r_lastRunAt b = r_lastRunAt base
   \<and> r_enabled b = r_enabled base \<and> r_name b = r_name base \<and> r_trigger b = r_trigger base
   \<and> r_updatedAt b = r_updatedAt base
   \<and> (getProp payload ''actions'' = Undefined \<and> getProp payload ''action'' = Undefined
        \<longrightarrow> r_actions b = r_actions base)"
  by (auto simp: actionsBlock_def Let_def split: if_splits prod.splits sum.splits)

lemma build_update_steps:
  assumes "buildRoutineFromPayload P payload (Some e) w = (Inr (Built r), w')"
  obtains b1 b3 b4 w3 where
    "nameBlock P payload e = Inr b1"
    "triggerBlock P payload (Some e) (enabledBlock payload (Some e) b1) = Inr b3"
    "actionsBlock P payload (Some e) b3 (w\<lparr>clockCalls := Suc (clockCalls w)\<rparr>) = (Inr (Inr b4), w3)"
    "r = b4\<lparr>r_updatedAt := Some (dateNow P (clockCalls w))\<rparr>"
  using assms
  by (auto simp: buildRoutineFromPayload_def Date_now_def Let_def
      split: sum.splits prod.splits)

lemma build_updatedAt:
  assumes "buildRoutineFromPayload P payload existing w = (Inr (Built r), w')"
  shows "r_updatedAt r = Some (dateNow P (clockCalls w))"
  using assms
  by (auto simp: buildRoutineFromPayload_def Date_now_def Let_def
      split: sum.splits prod.splits option.splits)

text \<open>
  C7, as amended.  Every successful build stamps \<open>updatedAt\<close> with the clock reading taken
  at its start.  On the update path the built routine keeps \<open>id\<close>, \<open>createdAt\<close> and
  \<open>lastRunAt\<close>, and keeps \<open>name\<close>, \<open>enabled\<close> and \<open>trigger\<close> when the payload omits that
  key; it keeps \<open>actions\<close> when the payload omits both \<open>actions\<close> and its alias \<open>action\<close>.
\<close>

theorem update_is_partial_merge:
  assumes "buildRoutineFromPayload P payload existing w = (Inr (Built r), w')"
  shows "r_updatedAt r = Some (dateNow P (clockCalls w))
       \<and> (\<forall>e. existing = Some e \<longrightarrow>
            r_id r = r_id e \<and> r_createdAt r = r_createdAt e \<and> r_lastRunAt r = r_lastRunAt e
          \<and> (getProp payload ''name'' = Undefined \<longrightarrow> r_name r = r_name e)
          \<and> (getProp payload ''enabled'' = Undefined \<longrightarrow> r_enabled r = r_enabled e)
          \<and> (getProp payload ''trigger'' = Undefined \<longrightarrow> r_trigger r = r_trigger e)
          \<and> (getProp payload ''actions'' = Undefined \<and> getProp payload ''action'' = Undefined
               \<longrightarrow> r_actions r = r_actions e))"
proof (intro conjI allI impI)
  show "r_updatedAt r = Some (dateNow P (clockCalls w))"
    by (rule build_updatedAt[OF assms])
next
  fix e assume ex: "existing = Some e"
  from assms ex obtain b1 b3 b4 w3 where
    n: "nameBlock P payload e = Inr b1" and
    t: "triggerBlock P payload (Some e) (enabledBlock payload (Some e) b1) = Inr b3" and
    a: "actionsBlock P payload (Some e) b3 (w\<lparr>clockCalls := Suc (clockCalls w)\<rparr>)
          = (Inr (Inr b4), w3)" and
    r: "r = b4\<lparr>r_updatedAt := Some (dateNow P (clockCalls w))\<rparr>"
    using build_update_steps by blast
  note fn = nameBlock_frame[OF n]
  note fe = enabledBlock_frame[of payload e b1]
  note ft = triggerBlock_frame[OF t]
  note fa = actionsBlock_frame[OF a]
  show "r_id r = r_id e" using fn fe ft fa r by simp
  show "r_createdAt r = r_createdAt e" using fn fe ft fa r by simp
  show "r_lastRunAt r = r_lastRunAt e" using fn fe ft fa r by simp
  show "r_name r = r_name e" if "getProp payload ''name'' = Undefined"
    using that fn fe ft fa r by simp
  show "r_enabled r = r_enabled e" if "getProp payload ''enabled'' = Undefined"
    using that fn fe ft fa r by simp
  show "r_trigger r = r_trigger e" if "getProp payload ''trigger'' = Undefined"
    using that fn fe ft fa r by simp
  show "r_actions r = r_actions e"
    if "getProp payload ''actions'' = Undefined \<and> getProp payload ''action'' = Undefined"
    using that fn fe ft fa r by simp
qed

text \<open>The update \<open>{ "name": "evening" }\<close> of the stored routine \<open>r1\<close>.\<close>

lemma rename_builds:
  "buildRoutineFromPayload exPlatform renamePayload (Some exTimeRoutine) exWorld =
     (Inr (Built (exTimeRoutine\<lparr>r_name := Some ''evening'', r_updatedAt := Some exNow\<rparr>)),
      exWorld\<lparr>clockCalls := 1\<rparr>)"
  by (simp add: build_defs renamePayload_def exPlatform_def exWorld_def)

theorem update_is_partial_merge_witness:
  "buildRoutineFromPayload exPlatform renamePayload (Some exTimeRoutine) exWorld =
     (Inr (Built (exTimeRoutine\<lparr>r_name := Some ''evening'', r_updatedAt := Some exNow\<rparr>)),
      exWorld\<lparr>clockCalls := 1\<rparr>)
   \<and> getProp renamePayload ''trigger'' = Undefined
   \<and> getProp renamePayload ''actions'' = Undefined
   \<and> getProp renamePayload ''action'' = Undefined
   \<and> r_trigger (exTimeRoutine\<lparr>r_name := Some ''evening'', r_updatedAt := Some exNow\<rparr>)
        = r_trigger exTimeRoutine
   \<and> r_actions (exTimeRoutine\<lparr>r_name := Some ''evening'', r_updatedAt := Some exNow\<rparr>)
        = r_actions exTimeRoutine
   \<and> r_updatedAt (exTimeRoutine\<lparr>r_name := Some ''evening'', r_updatedAt := Some exNow\<rparr>)
        = Some (dateNow exPlatform (clockCalls exWorld))"
proof -
  note m = update_is_partial_merge[OF rename_builds]
  have p: "getProp renamePayload ''trigger'' = Undefined"
          "getProp renamePayload ''actions'' = Undefined"
          "getProp renamePayload ''action'' = Undefined"
    by (simp_all add: renamePayload_def)
  show ?thesis using m p rename_builds by simp
qed

text \<open>
  The claim as it is written fails on an update that spells the key \<open>action\<close>: the
  payload has no key \<open>actions\<close>, and the stored \<open>actions\<close> are replaced all the same.
\<close>

theorem action_alias_replaces_actions:
  "getProp aliasPayload ''actions'' = Undefined
   \<and> fst (buildRoutineFromPayload exPlatform aliasPayload (Some exTimeRoutine) exWorld) =
       Inr (Built (exTimeRoutine\<lparr>r_actions := Some [exToggle ''a1'' ''fan''],
                                  r_updatedAt := Some exNow\<rparr>))
   \<and> r_actions (exTimeRoutine\<lparr>r_actions := Some [exToggle ''a1'' ''fan''],
                                r_updatedAt := Some exNow\<rparr>) \<noteq> r_actions exTimeRoutine"
  by (simp add: build_defs aliasPayload_def toggleJson_def exPlatform_def exWorld_def
      exToggle_def exTimeRoutine_def)

section \<open>Routine store: the action list\<close>

lemma normalizeAction_guard:
  assumes "normalizeAction P a w = (Inr (Some x), w')"
  shows "truthy a \<and> truthy (getProp a ''deviceId'')"
proof (rule ccontr)
  assume "\<not> (truthy a \<and> truthy (getProp a ''deviceId''))"
  then have "(truthy a \<and> truthy (getProp a ''deviceId'')) = False" by simp
  then have "normalizeAction P a w = (Inr None, w)"
    by (simp only: normalizeAction_def if_False)
  with assms show False by simp
qed

text \<open>An action that the loop pushes passed the checks of its type.\<close>

lemma normalizeAction_valid:
  assumes r: "normalizeAction P a w = (Inr (Some x), w')"
  shows "truthy a \<and> truthy (getProp a ''deviceId'')
       \<and> a_deviceId x = ToString P (getProp a ''deviceId'')
       \<and> (case a_type x of
            device_toggle b \<Rightarrow>
              getProp a ''type'' = JStr ''device_toggle''
              \<and> (getProp a ''desiredState'' = JBool b \<or> getProp a ''on'' = JBool b)
          | device_command capability command args \<Rightarrow>
              getProp a ''type'' = JStr ''device_command''
              \<and> capability \<noteq> [] \<and> command \<noteq> []
              \<and> trimOf (getProp a ''capability'') = Inr capability
              \<and> trimOf (getProp a ''command'') = Inr command
          | other_type t \<Rightarrow> False)"
proof -
  note g = normalizeAction_guard[OF r]
  consider (toggle) "getProp a ''type'' = JStr ''device_toggle''"
    | (command) "getProp a ''type'' = JStr ''device_command''"
    | (other) "getProp a ''type'' \<noteq> JStr ''device_toggle''"
        "getProp a ''type'' \<noteq> JStr ''device_command''"
    by blast
  then show ?thesis
  proof cases
    case toggle
    show ?thesis
    proof (cases "getProp a ''desiredState''")
      case (JBool b)
      with r g toggle show ?thesis
        by (auto simp: normalizeAction_def Let_def split_beta)
    next
      case Undefined
      with r g toggle show ?thesis
        by (cases "getProp a ''on''") (auto simp: normalizeAction_def Let_def split_beta)
    next
      case Null
      with r g toggle show ?thesis
        by (cases "getProp a ''on''") (auto simp: normalizeAction_def Let_def split_beta)
    next
      case (JNum n)
      with r g toggle show ?thesis
        by (cases "getProp a ''on''") (auto simp: normalizeAction_def Let_def split_beta)
    next
      case (JStr s)
      with r g toggle show ?thesis
        by (cases "getProp a ''on''") (auto simp: normalizeAction_def Let_def split_beta)
    next
      case (JArr xs)
      with r g toggle show ?thesis
        by (cases "getProp a ''on''") (auto simp: normalizeAction_def Let_def split_beta)
    next
      case (JObj kvs)
      with r g toggle show ?thesis
        by (cases "getProp a ''on''") (auto simp: normalizeAction_def Let_def split_beta)
    qed
  next
    case command
    with r g show ?thesis
      by (cases "trimOf (getProp a ''capability'')"; cases "trimOf (getProp a ''command'')")
        (auto simp: normalizeAction_def Let_def split_beta split: if_splits)
  next
    case other
    with r g show ?thesis
      by (simp add: normalizeAction_def Let_def split_beta)
  qed
qed

text \<open>The three ways in which the loop drops an action without a throw.\<close>

lemma normalizeAction_without_deviceId:
  assumes "\<not> truthy (getProp a ''deviceId'')"
  shows "normalizeAction P a w = (Inr None, w)"
proof -
  have "(truthy a \<and> truthy (getProp a ''deviceId'')) = False" using assms by simp
  then show ?thesis by (simp only: normalizeAction_def if_False)
qed

lemma normalizeAction_toggle_without_boolean:
  assumes "getProp a ''type'' = JStr ''device_toggle''"
    and "\<forall>b. getProp a ''desiredState'' \<noteq> JBool b"
    and "\<forall>b. getProp a ''on'' \<noteq> JBool b"
  shows "fst (normalizeAction P a w) = Inr None"
proof (cases "truthy a \<and> truthy (getProp a ''deviceId'')")
  case False
  then have "(truthy a \<and> truthy (getProp a ''deviceId'')) = False" by simp
  then show ?thesis by (simp only: normalizeAction_def if_False fst_conv)
next
  case True
  have d: "(case getProp a ''desiredState'' of JBool b \<Rightarrow> f b | _ \<Rightarrow> g) = g" for f and g :: "'z"
    using assms(2) by (cases "getProp a ''desiredState''") auto
  have o: "(case getProp a ''on'' of JBool b \<Rightarrow> f b | _ \<Rightarrow> g) = g" for f and g :: "'z"
    using assms(3) by (cases "getProp a ''on''") auto
  show ?thesis using True assms(1)
    by (simp add: normalizeAction_def Let_def split_beta d o)
qed

lemma normalizeAction_command_without_text:
  assumes "getProp a ''type'' = JStr ''device_command''"
    and "trimOf (getProp a ''capability'') = Inr capability"
    and "trimOf (getProp a ''command'') = Inr command"
    and "capability = [] \<or> command = []"
  shows "fst (normalizeAction P a w) = Inr None"
proof (cases "truthy a \<and> truthy (getProp a ''deviceId'')")
  case False
  then have "(truthy a \<and> truthy (getProp a ''deviceId'')) = False" by simp
  then show ?thesis by (simp only: normalizeAction_def if_False fst_conv)
next
  case True
  then show ?thesis using assms
    by (auto simp: normalizeAction_def Let_def split_beta)
qed

lemma normalizeLoop_extends:
  "normalizeLoop P as acc w = (Inr xs, w') \<Longrightarrow> \<exists>ys. xs = acc @ ys \<and> length ys \<le> length as"
proof (induction as arbitrary: acc w)
  case Nil
  then show ?case by simp
next
  case (Cons a as)
  obtain r w1 where n: "normalizeAction P a w = (r, w1)" by (metis surj_pair)
  show ?case
  proof (cases r)
    case (Inl e)
    with Cons.prems n show ?thesis by simp
  next
    case (Inr pushed)
    show ?thesis
    proof (cases pushed)
      case None
      with Cons.prems n Inr have "normalizeLoop P as acc w1 = (Inr xs, w')" by simp
      from Cons.IH[OF this] show ?thesis by auto
    next
      case (Some x)
      with Cons.prems n Inr have "normalizeLoop P as (acc @ [x]) w1 = (Inr xs, w')" by simp
      from Cons.IH[OF this] show ?thesis by auto
    qed
  qed
qed

lemma normalizeActions_at_most_20:
  assumes "normalizeActions P actions w = (Inr xs, w')"
  shows "length xs \<le> 20"
  using assms
  by (auto simp: normalizeActions_def Let_def MAX_ACTIONS_PER_ROUTINE_def
      split: prod.splits sum.splits)

lemma actionsBlock_nonempty:
  assumes "actionsBlock P payload None base w = (Inr (Inr b), w')"
  shows "\<exists>xs. r_actions b = Some xs \<and> xs \<noteq> [] \<and> length xs \<le> 20"
  using assms normalizeActions_at_most_20
  by (auto simp: actionsBlock_def Let_def split: if_splits prod.splits sum.splits)

text \<open>
  C8.  The claim: an action without a non-empty \<open>capability\<close> or \<open>command\<close> is dropped
  without failing the request, and the others survive.  On the code, the request whose
  first action is a command with \<open>capability: 5\<close> and \<open>command: ""\<close> and whose second
  action is a valid toggle is not validated at all: \<open>.trim()\<close> is called on the number
  and the \<open>TypeError\<close> leaves \<open>normalizeActions\<close> and \<open>buildRoutineFromPayload\<close>.
\<close>

theorem non_string_capability_throws:
  "normalizeActions P (JArr [badCommandJson, toggleJson ''d'']) w = (Inl TypeError, w)
   \<and> buildRoutineFromPayload P badCommandPayload None w =
       (Inl TypeError, w\<lparr>clockCalls := Suc (clockCalls w), rndCalls := Suc (rndCalls w)\<rparr>)
   \<and> normalizeActions P (JArr [toggleJson ''d'']) w = (Inr [exToggle ''a1'' ''d''], w)"
  by (simp add: build_defs badCommandPayload_def badCommandJson_def toggleJson_def exToggle_def)


section \<open>Secret vault and credential store: properties\<close>

text \<open>
  C10.  \<open>decryptSecret\<close> of a falsy payload (an absent or empty blob, and \<open>null\<close>, \<open>0\<close>,
  \<open>false\<close>, \<open>NaN\<close> alike) is the empty string, for every key and whatever the decoder
  and the cipher of the platform would do: they are not called.
\<close>

theorem decryptSecret_falsy_payload:
  assumes "\<not> truthy payload"
  shows "decryptSecret P payload key = Inr []"
  using assms by (simp add: decryptSecret_def)

theorem decryptSecret_falsy_payload_witness:
  "\<not> truthy (JStr []) \<and> decryptSecret exPlatform (JStr []) ''k'' = Inr []
   \<and> bufferFrom exPlatform Undefined ''base64'' = Inl TypeError
   \<and> \<not> truthy Undefined \<and> decryptSecret exPlatform Undefined ''k'' = Inr []"
proof -
  have a: "\<not> truthy (JStr [])" and b: "\<not> truthy Undefined" by simp_all
  have c: "bufferFrom exPlatform Undefined ''base64'' = Inl TypeError"
    by (simp add: exPlatform_def exBufferFrom_def)
  show ?thesis
    using a b c decryptSecret_falsy_payload[OF a, of exPlatform "''k''"]
      decryptSecret_falsy_payload[OF b, of exPlatform "''k''"]
    by simp
qed

text \<open>The stored entries of the concrete world decrypt to \<open>a\<close> (disabled) and \<open>b\<close> (enabled).\<close>

lemma exPlatform_env: "ENV_SMARTTHINGS_TOKEN exPlatform = None"
  by (simp add: exPlatform_def)

lemma exEnvPlatform_env: "ENV_SMARTTHINGS_TOKEN exEnvPlatform = Some ''env-token''"
  by (simp add: exEnvPlatform_def exPlatform_def)

lemma exWorld_stored: "getStoredSmartThingsTokens exPlatform exWorld = Inr [exTokenA, exTokenB]"
  by (simp add: getStoredSmartThingsTokens_def getKey_def List.map_filter_def storedToken_def
      decryptSecret_def exPlatform_def exWorld_def exBufferFrom_def exDecrypt_def
      exEntryA_def exEntryB_def exTokenA_def exTokenB_def)

lemma exWorld_stored_env:
  "getStoredSmartThingsTokens exEnvPlatform exWorld = Inr [exTokenA, exTokenB]"
  by (simp add: getStoredSmartThingsTokens_def getKey_def List.map_filter_def storedToken_def
      decryptSecret_def exEnvPlatform_def exPlatform_def exWorld_def exBufferFrom_def
      exDecrypt_def exEntryA_def exEntryB_def exTokenA_def exTokenB_def)

text \<open>
  C9.  With a non-empty \<open>SMARTTHINGS_TOKEN\<close> in the environment, resolution returns the
  single entry \<open>env\<close> whatever the key file and the credential file hold; a dispatch
  without a \<open>sourceId\<close>, or with \<open>sourceId = "env"\<close>, is sent with that entry; a dispatch
  (toggle or command) with any other \<open>sourceId\<close> throws source-not-found and sends
  nothing.
\<close>

theorem env_token_overrides_stored_entries:
  assumes "ENV_SMARTTHINGS_TOKEN P = Some (c # cs)"
  shows "resolveSmartThingsToken P w = Inr [envEntry (c # cs)]
       \<and> resolveSmartThingsToken P (w\<lparr>keyFile := k, integrationFile := es\<rparr>)
           = resolveSmartThingsToken P w
       \<and> (truthy sourceId \<and> sourceId \<noteq> JStr ''env'' \<longrightarrow>
            toggleSmartThingsDevice P deviceId on sourceId w = (Inl SourceNotFound, w)
          \<and> (a_type action = device_command capability command args
               \<and> optStr (a_sourceId action) = sourceId \<longrightarrow>
             performAction P routine action w = (Inl SourceNotFound, w)))
       \<and> (sourceId = JStr ''env'' \<or> sourceId = Undefined \<longrightarrow>
            toggleSmartThingsDevice P deviceId on sourceId w =
              sendSmartThingsCommand P deviceId (envEntry (c # cs)) ''switch''
                (if truthy on then ''on'' else ''off'') [] w)"
  using assms
  by (auto simp: resolveSmartThingsToken_def sourceFor_def tokenEntryFor_def
      toggleSmartThingsDevice_def envEntry_def performAction_def)

theorem env_token_overrides_stored_entries_witness:
  "ENV_SMARTTHINGS_TOKEN exEnvPlatform = Some ''env-token''
   \<and> getStoredSmartThingsTokens exEnvPlatform exWorld = Inr [exTokenA, exTokenB]
   \<and> t_id exTokenB = ''b'' \<and> t_enabled exTokenB = Some True
   \<and> resolveSmartThingsToken exEnvPlatform exWorld = Inr [envEntry ''env-token'']
   \<and> toggleSmartThingsDevice exEnvPlatform ''lamp'' (JBool True) (JStr ''b'') exWorld
        = (Inl SourceNotFound, exWorld)"
proof -
  note t = env_token_overrides_stored_entries[OF exEnvPlatform_env,
      where w = exWorld and sourceId = "JStr ''b''" and deviceId = "''lamp''"
        and on = "JBool True"]
  have b: "t_id exTokenB = ''b'' \<and> t_enabled exTokenB = Some True"
    by (simp add: exTokenB_def)
  show ?thesis using t b exEnvPlatform_env exWorld_stored_env by simp
qed

section \<open>Remote command dispatcher: properties\<close>

lemma find_filter: "find Q (filter R xs) = find (\<lambda>x. R x \<and> Q x) xs"
  by (induction xs) auto

lemma find_first_of_filter:
  "(case filter R xs of [] \<Rightarrow> None | t # ts \<Rightarrow> Some t) = find R xs"
  by (induction xs) auto

lemma resolve_without_env:
  assumes "ENV_SMARTTHINGS_TOKEN P = None \<or> ENV_SMARTTHINGS_TOKEN P = Some []"
    and "getStoredSmartThingsTokens P w = Inr stored"
  shows "resolveSmartThingsToken P w =
     (if filter (\<lambda>e. t_enabled e = Some True) stored = [] then Inl TokenMissing
      else Inr (filter (\<lambda>e. t_enabled e = Some True) stored))"
  using assms by (auto simp: resolveSmartThingsToken_def Let_def)

text \<open>
  Without an environment token, the credential of a dispatch is looked up among the
  enabled stored entries only.
\<close>

lemma sourceFor_without_env:
  assumes env: "ENV_SMARTTHINGS_TOKEN P = None \<or> ENV_SMARTTHINGS_TOKEN P = Some []"
    and st: "getStoredSmartThingsTokens P w = Inr stored"
  shows "sourceFor P w sourceId =
     (case (if truthy sourceId
            then find (\<lambda>t. t_enabled t = Some True \<and> JStr (t_id t) = sourceId) stored
            else find (\<lambda>t. t_enabled t = Some True) stored) of
        Some t \<Rightarrow> Inr t
      | None \<Rightarrow>
          Inl (if find (\<lambda>t. t_enabled t = Some True) stored = None then TokenMissing
               else SourceNotFound))"
proof -
  let ?en = "filter (\<lambda>e. t_enabled e = Some True) stored"
  have r: "resolveSmartThingsToken P w = (if ?en = [] then Inl TokenMissing else Inr ?en)"
    by (rule resolve_without_env[OF env st])
  have f1: "find (\<lambda>t. JStr (t_id t) = sourceId) ?en
          = find (\<lambda>t. t_enabled t = Some True \<and> JStr (t_id t) = sourceId) stored"
    by (rule find_filter)
  have f2: "(case ?en of [] \<Rightarrow> None | t # ts \<Rightarrow> Some t)
          = find (\<lambda>t. t_enabled t = Some True) stored"
    by (rule find_first_of_filter)
  show ?thesis
  proof (cases "?en = []")
    case True
    then have n2: "find (\<lambda>t. t_enabled t = Some True) stored = None"
      using f2 by simp
    have n1: "find (\<lambda>t. t_enabled t = Some True \<and> JStr (t_id t) = sourceId) stored = None"
      using True f1 by simp
    show ?thesis using True r by (simp add: n1 n2 sourceFor_def)
  next
    case False
    have f3: "find (\<lambda>t. t_enabled t = Some True) stored \<noteq> None"
      using False f2 by (cases ?en) (auto dest: sym)
    show ?thesis using False r f3
      by (auto simp: sourceFor_def tokenEntryFor_def f1 f2 split: option.splits)
  qed
qed

text \<open>
  C2, as amended.  With no token in the environment and \<open>stored\<close> the decrypted entries
  of the credential file: a dispatch (toggle or command) with an explicit \<open>sourceId\<close> is
  sent with the first enabled entry of that id, one without \<open>sourceId\<close> with the first
  enabled entry; when there is no such entry the dispatch throws (token-missing when no
  entry is enabled, source-not-found otherwise) and the world is unchanged.
\<close>

theorem dispatch_uses_enabled_source:
  assumes env: "ENV_SMARTTHINGS_TOKEN P = None \<or> ENV_SMARTTHINGS_TOKEN P = Some []"
    and st: "getStoredSmartThingsTokens P w = Inr stored"
  shows "case (if truthy sourceId
               then find (\<lambda>t. t_enabled t = Some True \<and> JStr (t_id t) = sourceId) stored
               else find (\<lambda>t. t_enabled t = Some True) stored) of
           Some t \<Rightarrow>
             toggleSmartThingsDevice P deviceId on sourceId w =
               sendSmartThingsCommand P deviceId t ''switch''
                 (if truthy on then ''on'' else ''off'') [] w
           \<and> (a_type action = device_command capability command args
                \<and> optStr (a_sourceId action) = sourceId \<longrightarrow>
              fst (performAction P routine action w) =
                (case fst (sendSmartThingsCommand P (a_deviceId action) t
                             capability command args w) of
                   Inl e \<Rightarrow> Inl e
                 | Inr (result, state, source) \<Rightarrow>
                     Inr \<lparr>res_ok = True, res_actionId = a_id action, res_state = Some state,
                          res_error = None\<rparr>))
         | None \<Rightarrow>
             toggleSmartThingsDevice P deviceId on sourceId w =
               (Inl (if find (\<lambda>t. t_enabled t = Some True) stored = None then TokenMissing
                     else SourceNotFound), w)
           \<and> (a_type action = device_command capability command args
                \<and> optStr (a_sourceId action) = sourceId \<longrightarrow>
              performAction P routine action w =
                (Inl (if find (\<lambda>t. t_enabled t = Some True) stored = None then TokenMissing
                      else SourceNotFound), w))"
  using sourceFor_without_env[OF env st, of sourceId]
  by (auto simp: toggleSmartThingsDevice_def performAction_def Let_def split_beta
      split: option.splits sum.splits)

theorem dispatch_uses_enabled_source_witness:
  "ENV_SMARTTHINGS_TOKEN exPlatform = None
   \<and> getStoredSmartThingsTokens exPlatform exWorld = Inr [exTokenA, exTokenB]
   \<and> toggleSmartThingsDevice exPlatform ''lamp'' (JBool True) (JStr ''b'') exWorld =
       sendSmartThingsCommand exPlatform ''lamp'' exTokenB ''switch'' ''on'' [] exWorld
   \<and> toggleSmartThingsDevice exPlatform ''lamp'' (JBool True) Undefined exWorld =
       sendSmartThingsCommand exPlatform ''lamp'' exTokenB ''switch'' ''on'' [] exWorld"
proof -
  have env: "ENV_SMARTTHINGS_TOKEN exPlatform = None \<or> ENV_SMARTTHINGS_TOKEN exPlatform = Some []"
    by (simp add: exPlatform_env)
  note b = dispatch_uses_enabled_source[OF env exWorld_stored,
      where sourceId = "JStr ''b''" and deviceId = "''lamp''" and on = "JBool True"]
  note u = dispatch_uses_enabled_source[OF env exWorld_stored,
      where sourceId = Undefined and deviceId = "''lamp''" and on = "JBool True"]
  have tb: "exTokenB = \<lparr>t_id = ''b'', t_label = ''B'', t_token = ''token-b'',
                t_enabled = Some True, t_updatedAt = Some 2\<rparr>"
    by (simp add: exTokenB_def)
  show ?thesis using b u exPlatform_env exWorld_stored
    by (simp add: exTokenA_def tb)
qed

text \<open>
  The claim as it is written fails on the stored entries \<open>a\<close> (disabled) and \<open>b\<close>
  (enabled): the toggle with the explicit \<open>sourceId = "a"\<close> does not use the entry \<open>a\<close>;
  it throws source-not-found.
\<close>

theorem explicit_disabled_source_is_not_used:
  "integrationFile exWorld = [exEntryA, exEntryB]
   \<and> e_id exEntryA = ''a'' \<and> e_enabled exEntryA = JBool False
   \<and> ENV_SMARTTHINGS_TOKEN exPlatform = None
   \<and> toggleSmartThingsDevice exPlatform ''lamp'' (JBool True) (JStr ''a'') exWorld
        = (Inl SourceNotFound, exWorld)"
  by (simp add: toggleSmartThingsDevice_def sourceFor_def resolveSmartThingsToken_def
      exWorld_stored exPlatform_env tokenEntryFor_def exTokenA_def exTokenB_def)
    (simp add: exWorld_def exEntryA_def)


section \<open>Scheduler: running the actions of a routine\<close>

lemma runAction_shape:
  assumes "runAction P routine action w = (r, w')"
  shows "res_actionId r = a_id action
       \<and> (res_ok r \<longrightarrow> res_state r \<noteq> None \<and> res_error r = None)
       \<and> (\<not> res_ok r \<longrightarrow> res_state r = None \<and> res_error r \<noteq> None)"
  using assms
  by (auto simp: runAction_def performAction_def Let_def
      split: sum.splits prod.splits action_type.splits)

lemma runAction_catches:
  assumes "fst (performAction P routine action w) = Inl e"
  shows "fst (runAction P routine action w) =
     \<lparr>res_ok = False, res_actionId = a_id action, res_state = None,
      res_error = Some (Thrown e)\<rparr>"
  using assms by (auto simp: runAction_def split: sum.splits prod.splits)

lemma runActions_Cons:
  "runActions P routine (a # as) w =
     (fst (runAction P routine a w)
        # fst (runActions P routine as (snd (runAction P routine a w))),
      snd (runActions P routine as (snd (runAction P routine a w))))"
  by (simp add: Let_def split_beta)

lemma runActions_length: "length (fst (runActions P routine as w)) = length as"
  by (induction as arbitrary: w) (simp_all add: runActions_Cons del: runActions.simps(2))

text \<open>
  The \<open>i\<close>-th result is the result of the \<open>i\<close>-th action, run in the world that the
  first \<open>i\<close> actions left behind, whether they succeeded or not.
\<close>

lemma runActions_nth:
  "i < length as \<Longrightarrow>
   fst (runActions P routine as w) ! i =
     fst (runAction P routine (as ! i) (snd (runActions P routine (take i as) w)))"
proof (induction as arbitrary: w i)
  case Nil
  then show ?case by simp
next
  case (Cons a as)
  show ?case
  proof (cases i)
    case 0
    then show ?thesis by (simp add: runActions_Cons del: runActions.simps(2))
  next
    case (Suc j)
    with Cons.prems have j: "j < length as" by simp
    show ?thesis using Cons.IH[OF j] Suc
      by (simp add: runActions_Cons del: runActions.simps(2))
  qed
qed

text \<open>
  C4.  A routine run returns one result per action, in the order of the list: the
  \<open>i\<close>-th result carries the id of the \<open>i\<close>-th action and is what running that action
  gives in the world left by the actions before it; it is either \<open>ok\<close> with a state and
  no error, or not \<open>ok\<close> with an error and no state; and when the action throws \<open>e\<close>, its
  result is the entry \<open>{ ok: false, actionId, error: e }\<close>, after which the run goes on
  with the next action.
\<close>

theorem runRoutineActions_one_result_per_action:
  "length (fst (runRoutineActions P routine w))
     = length (case r_actions routine of None \<Rightarrow> [] | Some as \<Rightarrow> as)
   \<and> (\<forall>i < length (case r_actions routine of None \<Rightarrow> [] | Some as \<Rightarrow> as).
        (let actions = (case r_actions routine of None \<Rightarrow> [] | Some as \<Rightarrow> as);
             wi = snd (runActions P routine (take i actions) w);
             res = fst (runRoutineActions P routine w) ! i
         in res = fst (runAction P routine (actions ! i) wi)
          \<and> res_actionId res = a_id (actions ! i)
          \<and> (res_ok res \<longrightarrow> res_state res \<noteq> None \<and> res_error res = None)
          \<and> (\<not> res_ok res \<longrightarrow> res_state res = None \<and> res_error res \<noteq> None)
          \<and> (\<forall>e. fst (performAction P routine (actions ! i) wi) = Inl e \<longrightarrow>
                 res = \<lparr>res_ok = False, res_actionId = a_id (actions ! i), res_state = None,
                        res_error = Some (Thrown e)\<rparr>)))"
proof -
  let ?as = "case r_actions routine of None \<Rightarrow> [] | Some as \<Rightarrow> as"
  let ?res = "\<lambda>i. fst (runRoutineActions P routine w) ! i"
  let ?wi = "\<lambda>i. snd (runActions P routine (take i ?as) w)"
  have len: "length (fst (runRoutineActions P routine w)) = length ?as"
    by (simp add: runRoutineActions_def runActions_length)
  have step: "?res i = fst (runAction P routine (?as ! i) (?wi i))" if "i < length ?as" for i
    using runActions_nth[OF that] by (simp add: runRoutineActions_def)
  have shape:
    "res_actionId (fst (runAction P routine a v)) = a_id a
     \<and> (res_ok (fst (runAction P routine a v)) \<longrightarrow>
          res_state (fst (runAction P routine a v)) \<noteq> None
        \<and> res_error (fst (runAction P routine a v)) = None)
     \<and> (\<not> res_ok (fst (runAction P routine a v)) \<longrightarrow>
          res_state (fst (runAction P routine a v)) = None
        \<and> res_error (fst (runAction P routine a v)) \<noteq> None)" for a v
    using runAction_shape[of P routine a v "fst (runAction P routine a v)"
        "snd (runAction P routine a v)"] by simp
  show ?thesis
    unfolding Let_def
  proof (intro conjI allI impI)
    show "length (fst (runRoutineActions P routine w)) = length ?as" by (rule len)
  next
    fix i assume i: "i < length ?as"
    show "?res i = fst (runAction P routine (?as ! i) (?wi i))"
      by (rule step[OF i])
    show "res_actionId (?res i) = a_id (?as ! i)"
      using shape by (simp add: step[OF i])
    show "res_state (?res i) \<noteq> None" if "res_ok (?res i)"
      using that shape by (simp add: step[OF i])
    show "res_error (?res i) = None" if "res_ok (?res i)"
      using that shape by (simp add: step[OF i])
    show "res_state (?res i) = None" if "\<not> res_ok (?res i)"
      using that shape by (simp add: step[OF i])
    show "res_error (?res i) \<noteq> None" if "\<not> res_ok (?res i)"
      using that shape by (simp add: step[OF i])
    show "?res i = \<lparr>res_ok = False, res_actionId = a_id (?as ! i), res_state = None,
                    res_error = Some (Thrown e)\<rparr>"
      if "fst (performAction P routine (?as ! i) (?wi i)) = Inl e" for e
      using runAction_catches[OF that] by (simp add: step[OF i])
  qed
qed

text \<open>
  Three toggles, of which the second addresses the device that answers 500: the first
  and the third are sent and succeed.
\<close>

lemmas run_defs =
  runRoutineActions_def runAction_def performAction_def toggleSmartThingsDevice_def
  sourceFor_def tokenEntryFor_def resolveSmartThingsToken_def getStoredSmartThingsTokens_def
  getKey_def storedToken_def decryptSecret_def List.map_filter_def
  sendSmartThingsCommand_def getDeviceStatus_def doFetch_def isOk_def propT_def propOpt_def
  jsOr_def appendLog_def logDevice_def Date_now_def optStr_def trim_def isWhiteSpace_def

lemma three_actions_run:
  "fst (runRoutineActions exPlatform exThreeActions exWorld) =
     [\<lparr>res_ok = True, res_actionId = JStr ''a1'',
       res_state = Some \<lparr>s_on = True, s_online = True\<rparr>, res_error = None\<rparr>,
      \<lparr>res_ok = False, res_actionId = JStr ''a2'', res_state = None,
       res_error = Some (Thrown (CommandFailed 500 ''boom''))\<rparr>,
      \<lparr>res_ok = True, res_actionId = JStr ''a3'',
       res_state = Some \<lparr>s_on = True, s_online = True\<rparr>, res_error = None\<rparr>]"
  by (simp add: run_defs exPlatform_def exWorld_def exFetch_def exStatusBody_def
      exBufferFrom_def exDecrypt_def exEntryA_def exEntryB_def exToggle_def exThreeActions_def)

theorem runRoutineActions_one_result_per_action_witness:
  "r_actions exThreeActions =
     Some [exToggle ''a1'' ''lamp'', exToggle ''a2'' ''broken'', exToggle ''a3'' ''fan'']
   \<and> length (fst (runRoutineActions exPlatform exThreeActions exWorld)) = 3
   \<and> map res_ok (fst (runRoutineActions exPlatform exThreeActions exWorld))
        = [True, False, True]
   \<and> map res_actionId (fst (runRoutineActions exPlatform exThreeActions exWorld))
        = [JStr ''a1'', JStr ''a2'', JStr ''a3'']
   \<and> res_error (fst (runRoutineActions exPlatform exThreeActions exWorld) ! 1)
        = Some (Thrown (CommandFailed 500 ''boom''))"
proof -
  have a: "r_actions exThreeActions =
      Some [exToggle ''a1'' ''lamp'', exToggle ''a2'' ''broken'', exToggle ''a3'' ''fan'']"
    by (simp add: exThreeActions_def)
  note t = runRoutineActions_one_result_per_action[of exPlatform exThreeActions exWorld]
  from t have "length (fst (runRoutineActions exPlatform exThreeActions exWorld)) = 3"
    by (simp add: a)
  then show ?thesis using a by (simp add: three_actions_run)
qed


section \<open>Scheduler: the evaluation pass\<close>

text \<open>
  The callback on one routine: a slot key that the tracker already holds for an id stays,
  and no time-triggered routine of that id fires; a time-triggered routine that fires has
  the key recorded under its id.
\<close>

lemma evaluateRoutine_tracked:
  assumes "routineRunTracker w rid = Some (slotKey now)"
    and "evaluateRoutine P now routine w = ((u, f), w')"
  shows "routineRunTracker w' rid = Some (slotKey now)
       \<and> (\<forall>x. f = Some x \<longrightarrow> r_id x = rid \<longrightarrow>
             (\<exists>em. r_trigger x = Some (interval_trigger em)))"
  using assms
  by (auto simp: evaluateRoutine_def Let_def Date_now_def
      split: if_splits option.splits trigger.splits prod.splits)

lemma evaluateRoutine_records:
  assumes "evaluateRoutine P now routine w = ((u, Some x), w')"
    and "r_trigger x = Some (time_trigger t d)"
  shows "routineRunTracker w' (r_id x) = Some (slotKey now)"
  using assms
  by (auto simp: evaluateRoutine_def Let_def Date_now_def
      split: if_splits option.splits trigger.splits prod.splits)

lemma mapRoutines_Cons:
  "mapRoutines P now (r # rs) w =
     ((fst (fst (evaluateRoutine P now r w))
         # fst (fst (mapRoutines P now rs (snd (evaluateRoutine P now r w)))),
       (case snd (fst (evaluateRoutine P now r w)) of None \<Rightarrow> [] | Some x \<Rightarrow> [x])
         @ snd (fst (mapRoutines P now rs (snd (evaluateRoutine P now r w))))),
      snd (mapRoutines P now rs (snd (evaluateRoutine P now r w))))"
  by (simp add: Let_def split_beta)

lemma mapRoutines_tracked:
  "routineRunTracker w rid = Some (slotKey now) \<Longrightarrow>
   routineRunTracker (snd (mapRoutines P now rs w)) rid = Some (slotKey now)
   \<and> (\<forall>x \<in> set (snd (fst (mapRoutines P now rs w))).
         r_id x = rid \<longrightarrow> (\<exists>em. r_trigger x = Some (interval_trigger em)))"
proof (induction rs arbitrary: w)
  case Nil
  then show ?case by simp
next
  case (Cons r rs)
  obtain u f w1 where e: "evaluateRoutine P now r w = ((u, f), w1)"
    by (metis surj_pair)
  from evaluateRoutine_tracked[OF Cons.prems e]
  have t1: "routineRunTracker w1 rid = Some (slotKey now)"
    and f1: "\<forall>x. f = Some x \<longrightarrow> r_id x = rid \<longrightarrow>
               (\<exists>em. r_trigger x = Some (interval_trigger em))"
    by auto
  from Cons.IH[OF t1] f1 e show ?case
    by (auto simp: mapRoutines_Cons simp del: mapRoutines.simps(2) split: option.splits)
qed

lemma mapRoutines_records:
  "\<forall>x \<in> set (snd (fst (mapRoutines P now rs w))). \<forall>t d.
      r_trigger x = Some (time_trigger t d) \<longrightarrow>
      routineRunTracker (snd (mapRoutines P now rs w)) (r_id x) = Some (slotKey now)"
proof (induction rs arbitrary: w)
  case Nil
  then show ?case by simp
next
  case (Cons r rs)
  obtain u f w1 where e: "evaluateRoutine P now r w = ((u, f), w1)"
    by (metis surj_pair)
  have here: "routineRunTracker (snd (mapRoutines P now rs w1)) (r_id x) = Some (slotKey now)"
    if "f = Some x" "r_trigger x = Some (time_trigger t d)" for x t d
  proof -
    from e that have "routineRunTracker w1 (r_id x) = Some (slotKey now)"
      using evaluateRoutine_records by blast
    then show ?thesis using mapRoutines_tracked by blast
  qed
  show ?case using Cons.IH[of w1] e here
    by (auto simp: mapRoutines_Cons simp del: mapRoutines.simps(2) split: option.splits)
qed

text \<open>
  C3.  In an evaluation pass, with \<open>key\<close> the slot key (date and \<open>HH:MM\<close>) of the wall
  clock it reads: every time-triggered routine the pass fires has \<open>key\<close> recorded under
  its id in the tracker afterwards; and when the tracker holds \<open>key\<close> for a routine id
  before the pass, the pass fires no time-triggered routine of that id and the tracker
  still holds \<open>key\<close> for it afterwards.  So from the pass that fires a routine on, no
  pass that computes the recorded key fires it again.
\<close>

theorem time_slot_fires_once:
  "(\<forall>x \<in> set (fst (evaluateRoutines P w)). \<forall>t d.
       r_trigger x = Some (time_trigger t d) \<longrightarrow>
       routineRunTracker (snd (evaluateRoutines P w)) (r_id x)
         = Some (slotKey (newDate P (clockCalls w))))
   \<and> (routineRunTracker w rid = Some (slotKey (newDate P (clockCalls w))) \<longrightarrow>
        routineRunTracker (snd (evaluateRoutines P w)) rid
          = Some (slotKey (newDate P (clockCalls w)))
      \<and> (\<forall>x \<in> set (fst (evaluateRoutines P w)).
            r_id x = rid \<longrightarrow> (\<exists>em. r_trigger x = Some (interval_trigger em))))"
proof -
  let ?now = "newDate P (clockCalls w)"
  let ?w0 = "w\<lparr>clockCalls := Suc (clockCalls w)\<rparr>"
  let ?m = "mapRoutines P ?now (routineFile ?w0) ?w0"
  have l: "fst (evaluateRoutines P w) = snd (fst ?m)"
    by (simp add: evaluateRoutines_def Let_def split_beta)
  have t: "routineRunTracker (snd (evaluateRoutines P w)) = routineRunTracker (snd ?m)"
    by (simp add: evaluateRoutines_def Let_def split_beta)
  have A: "\<forall>x \<in> set (snd (fst ?m)). \<forall>t d. r_trigger x = Some (time_trigger t d) \<longrightarrow>
      routineRunTracker (snd ?m) (r_id x) = Some (slotKey ?now)"
    by (rule mapRoutines_records)
  have B: "routineRunTracker (snd ?m) rid = Some (slotKey ?now)
     \<and> (\<forall>x \<in> set (snd (fst ?m)). r_id x = rid \<longrightarrow>
           (\<exists>em. r_trigger x = Some (interval_trigger em)))"
    if "routineRunTracker w rid = Some (slotKey ?now)"
    using mapRoutines_tracked[of ?w0 rid ?now P "routineFile ?w0"] that by simp
  show ?thesis unfolding l t using A B by blast
qed

text \<open>
  Two passes in the minute 10:00 over the stored routine \<open>r1\<close>, due at 10:00: the first
  fires it and records the key, the second fires nothing.
\<close>

lemmas eval_defs =
  evaluateRoutines_def evaluateRoutine_def normalizeDays_def slotKey_def Date_now_def Let_def
  clampEveryMinutes_def Math_max_def Math_min_def numOrZero_def

lemma first_pass:
  "evaluateRoutines exPlatform exWorld =
     ([exTimeRoutine],
      exWorld\<lparr>clockCalls := 2, routineFile := [exTimeRoutine\<lparr>r_lastRunAt := Some exNow\<rparr>],
              routineRunTracker := [''r1'' \<mapsto> ''Mon Nov 02 2026-10:00'']\<rparr>)"
  by (simp add: eval_defs exPlatform_def exWorld_def exTimeRoutine_def exDate_def)

lemma second_pass:
  "fst (evaluateRoutines exPlatform (snd (evaluateRoutines exPlatform exWorld))) = []"
  by (simp add: first_pass)
    (simp add: eval_defs exPlatform_def exWorld_def exTimeRoutine_def exDate_def)

theorem time_slot_fires_once_witness:
  "fst (evaluateRoutines exPlatform exWorld) = [exTimeRoutine]
   \<and> routineRunTracker (snd (evaluateRoutines exPlatform exWorld)) ''r1''
        = Some (slotKey (newDate exPlatform
                  (clockCalls (snd (evaluateRoutines exPlatform exWorld)))))
   \<and> fst (evaluateRoutines exPlatform (snd (evaluateRoutines exPlatform exWorld))) = []
   \<and> routineRunTracker
        (snd (evaluateRoutines exPlatform (snd (evaluateRoutines exPlatform exWorld)))) ''r1''
        = Some ''Mon Nov 02 2026-10:00''"
proof -
  let ?w1 = "snd (evaluateRoutines exPlatform exWorld)"
  have k: "slotKey (newDate exPlatform (clockCalls ?w1)) = ''Mon Nov 02 2026-10:00''"
    by (simp add: slotKey_def exPlatform_def exDate_def)
  have rec: "routineRunTracker ?w1 ''r1'' = Some (slotKey (newDate exPlatform (clockCalls ?w1)))"
    unfolding k by (simp add: first_pass)
  from time_slot_fires_once[of exPlatform ?w1 "''r1''"] rec
  have "routineRunTracker (snd (evaluateRoutines exPlatform ?w1)) ''r1''
          = Some (slotKey (newDate exPlatform (clockCalls ?w1)))"
    by blast
  then show ?thesis using rec second_pass k by (simp add: first_pass)
qed

text \<open>
  The pass applies the callback once to each stored routine, in order, and launches what
  the callback fires.
\<close>

lemma mapRoutines_nth:
  "i < length rs \<Longrightarrow>
   snd (fst (mapRoutines P now rs w)) =
     snd (fst (mapRoutines P now (take i rs) w))
     @ (case snd (fst (evaluateRoutine P now (rs ! i) (snd (mapRoutines P now (take i rs) w)))) of
          None \<Rightarrow> [] | Some x \<Rightarrow> [x])
     @ snd (fst (mapRoutines P now (drop (Suc i) rs)
              (snd (evaluateRoutine P now (rs ! i) (snd (mapRoutines P now (take i rs) w))))))"
proof (induction rs arbitrary: w i)
  case Nil
  then show ?case by simp
next
  case (Cons r rs)
  show ?case
  proof (cases i)
    case 0
    then show ?thesis by (simp add: mapRoutines_Cons del: mapRoutines.simps(2))
  next
    case (Suc j)
    with Cons.prems have j: "j < length rs" by simp
    show ?thesis using Cons.IH[OF j] Suc
      by (simp add: mapRoutines_Cons del: mapRoutines.simps(2))
  qed
qed



end
